theory Spec2Isabelle
  imports Main "HOL-Library.Sublist" "HOL-Library.AList"
begin

section \<open>Go values shared by the embedded functions\<close>

text \<open>
  A Go \<open>error\<close> value is either \<open>nil\<close> or one of the error shapes the provider deals
  with; \<open>error option\<close> is the Go interface value, \<open>None\<close> being \<open>nil\<close>.
  \<open>Wrapf prefix e\<close> is \<open>fmt.Errorf(prefix + ": %w", e)\<close>: a new error that wraps
  \<open>e\<close> and can be unwrapped by \<open>errors.As\<close>.
\<close>

datatype error =
    NotFoundError string
  | AWSError string string
  | PlainError string
  | Wrapf string error

text \<open>A run-time panic of the Go program is a value of the model.\<close>

datatype panic = NilPointerDereference | TypeAssertion

text \<open>\<open>aws.String\<close> and \<open>aws.StringValue\<close> of the AWS SDK: a \<open>*string\<close> is a
  \<open>string option\<close>, and the value of a nil pointer is the empty string.\<close>

definition String :: "string \<Rightarrow> string option" where
  "String s = Some s"

definition StringValue :: "string option \<Rightarrow> string" where
  "StringValue p = (case p of None \<Rightarrow> [] | Some s \<Rightarrow> s)"

text \<open>
  Modelled from the spec: \<open>tfresource.NotFound\<close> (package \<open>tfresource\<close> is not among the
  sources). It is the classifier of "not found" errors: true when the error, or an error
  it wraps, is a \<open>resource.NotFoundError\<close>; false for every other error and for \<open>nil\<close>.
\<close>

fun isNotFoundError :: "error \<Rightarrow> bool" where
  "isNotFoundError (NotFoundError m) = True"
| "isNotFoundError (Wrapf p e) = isNotFoundError e"
| "isNotFoundError (AWSError c m) = False"
| "isNotFoundError (PlainError m) = False"

definition NotFound :: "error option \<Rightarrow> bool" where
  "NotFound err = (case err of None \<Rightarrow> False | Some e \<Rightarrow> isNotFoundError e)"


section \<open>Status-refresh probes\<close>

text \<open>
  The representations are structs of the AWS SDK; the records keep the fields the probes
  read and an identifying field. A pointer to a struct is an \<open>option\<close>.
\<close>

record DescribedServer =
  ServerId :: "string option"
  State :: "string option"

record DescribedUser =
  Arn :: "string option"
  HomeDirectory :: "string option"
  Role :: "string option"
  UserName :: "string option"

record EventSubscription =
  CustSubscriptionId :: "string option"
  Status :: "string option"

record DBProxyEndpoint =
  DBProxyEndpointName :: "string option"
  Status :: "string option"

record DBClusterRole =
  RoleArn :: "string option"
  Status :: "string option"

text \<open>
  A finder performs one read against the remote API: it takes the state \<open>'w\<close> of the
  world behind the connection and returns the pair \<open>(output, err)\<close> together with the
  world after the call. The finders themselves (package \<open>finder\<close>) are parameters of the
  probe constructors. A \<open>resource.StateRefreshFunc\<close> returns
  \<open>(interface{}, string, error)\<close> or panics.
\<close>

type_synonym 'r found = "'r option \<times> error option"

type_synonym 'r refreshed = "panic + ('r option \<times> string \<times> error option)"

type_synonym ('r, 'w) StateRefreshFunc = "'w \<Rightarrow> 'r refreshed \<times> 'w"

definition userStateExists :: string where
  "userStateExists = ''exists''"

definition proxyEndpointStatusNotFound :: string where
  "proxyEndpointStatusNotFound = ''NotFound''"

definition proxyEndpointStatusUnknown :: string where
  "proxyEndpointStatusUnknown = ''Unknown''"

definition ServerState ::
  "('c \<Rightarrow> string \<Rightarrow> 'w \<Rightarrow> DescribedServer found \<times> 'w) \<Rightarrow> 'c \<Rightarrow> string
    \<Rightarrow> (DescribedServer, 'w) StateRefreshFunc" where
  "ServerState ServerByID conn ident = (\<lambda>w.
     case ServerByID conn ident w of ((output, err), w') \<Rightarrow>
       if NotFound err then (Inr (None, [], None), w')
       else if err \<noteq> None then (Inr (None, [], err), w')
       else (case output of
               None \<Rightarrow> (Inl NilPointerDereference, w')
             | Some out \<Rightarrow> (Inr (Some out, StringValue (State out), None), w')))"

definition UserState ::
  "('c \<Rightarrow> string \<Rightarrow> string \<Rightarrow> 'w \<Rightarrow> DescribedUser found \<times> 'w) \<Rightarrow> 'c \<Rightarrow> string \<Rightarrow> string
    \<Rightarrow> (DescribedUser, 'w) StateRefreshFunc" where
  "UserState UserByServerIDAndUserName conn serverID userName = (\<lambda>w.
     case UserByServerIDAndUserName conn serverID userName w of ((output, err), w') \<Rightarrow>
       if NotFound err then (Inr (None, [], None), w')
       else if err \<noteq> None then (Inr (None, [], err), w')
       else (Inr (output, userStateExists, None), w'))"

definition statusEventSubscription ::
  "('c \<Rightarrow> string \<Rightarrow> 'w \<Rightarrow> EventSubscription found \<times> 'w) \<Rightarrow> 'c \<Rightarrow> string
    \<Rightarrow> (EventSubscription, 'w) StateRefreshFunc" where
  "statusEventSubscription FindEventSubscriptionByID conn ident = (\<lambda>w.
     case FindEventSubscriptionByID conn ident w of ((output, err), w') \<Rightarrow>
       if NotFound err then (Inr (None, [], None), w')
       else if err \<noteq> None then (Inr (None, [], err), w')
       else (case output of
               None \<Rightarrow> (Inl NilPointerDereference, w')
             | Some out \<Rightarrow>
                 (Inr (Some out, StringValue (EventSubscription.Status out), None), w')))"

definition statusDBProxyEndpoint ::
  "('c \<Rightarrow> string \<Rightarrow> 'w \<Rightarrow> DBProxyEndpoint found \<times> 'w) \<Rightarrow> 'c \<Rightarrow> string
    \<Rightarrow> (DBProxyEndpoint, 'w) StateRefreshFunc" where
  "statusDBProxyEndpoint FindDBProxyEndpoint conn ident = (\<lambda>w.
     case FindDBProxyEndpoint conn ident w of ((output, err), w') \<Rightarrow>
       if err \<noteq> None then (Inr (None, proxyEndpointStatusUnknown, err), w')
       else (case output of
               None \<Rightarrow> (Inr (None, proxyEndpointStatusNotFound, None), w')
             | Some out \<Rightarrow>
                 (Inr (Some out, StringValue (DBProxyEndpoint.Status out), None), w')))"

definition statusDBClusterRole ::
  "('c \<Rightarrow> string \<Rightarrow> string \<Rightarrow> 'w \<Rightarrow> DBClusterRole found \<times> 'w) \<Rightarrow> 'c \<Rightarrow> string \<Rightarrow> string
    \<Rightarrow> (DBClusterRole, 'w) StateRefreshFunc" where
  "statusDBClusterRole FindDBClusterRoleByDBClusterIDAndRoleARN conn dbClusterID roleARN = (\<lambda>w.
     case FindDBClusterRoleByDBClusterIDAndRoleARN conn dbClusterID roleARN w of
       ((output, err), w') \<Rightarrow>
         if NotFound err then (Inr (None, [], None), w')
         else if err \<noteq> None then (Inr (None, [], err), w')
         else (case output of
                 None \<Rightarrow> (Inl NilPointerDereference, w')
               | Some out \<Rightarrow>
                   (Inr (Some out, StringValue (DBClusterRole.Status out), None), w')))"


section \<open>The SageMaker model resource\<close>

subsection \<open>Reading the model\<close>

text \<open>
  Modelled from the spec: \<open>isAWSErr\<close> (the provider's helper, not among the sources).
  \<open>isAWSErr(err, code, message)\<close> holds when \<open>err\<close> is, or wraps, an AWS API error
  with that code whose message contains \<open>message\<close>; the empty \<open>message\<close> is contained
  in every message.
\<close>

fun isAWSErr :: "error \<Rightarrow> string \<Rightarrow> string \<Rightarrow> bool" where
  "isAWSErr (AWSError c m) code message = (c = code \<and> sublist message m)"
| "isAWSErr (Wrapf p e) code message = isAWSErr e code message"
| "isAWSErr (NotFoundError m) code message = False"
| "isAWSErr (PlainError m) code message = False"

text \<open>
  \<open>schema.ResourceData\<close>: the resource's ID; the attributes are in the extension of the
  record. \<open>d.SetId\<close> is the update of \<open>Id\<close>.
\<close>

record ResourceData =
  Id :: string

text \<open>
  \<open>resourceAwsSagemakerModelRead\<close>. \<open>DescribeModel\<close> is the API call of the
  connection, given the model name \<open>d.Id()\<close>. The rest of the function, after a
  successful call (it writes the described model and its tags into \<open>d\<close> through
  \<open>ResourceData.Set\<close> and \<open>keyvaluetags\<close>, neither among the sources), is the
  parameter \<open>setAttributes\<close>. The result is the returned error and \<open>d\<close> after the call.
\<close>

definition resourceAwsSagemakerModelRead ::
  "(string \<Rightarrow> 'w \<Rightarrow> ('m option \<times> error option) \<times> 'w)
    \<Rightarrow> ('m option \<Rightarrow> 'a ResourceData_scheme \<Rightarrow> 'w \<Rightarrow> (error option \<times> 'a ResourceData_scheme) \<times> 'w)
    \<Rightarrow> 'a ResourceData_scheme \<Rightarrow> 'w \<Rightarrow> (error option \<times> 'a ResourceData_scheme) \<times> 'w" where
  "resourceAwsSagemakerModelRead DescribeModel setAttributes d w =
     (case DescribeModel (Id d) w of ((model, err), w') \<Rightarrow>
        (case err of
           Some e \<Rightarrow>
             if isAWSErr e ''ValidationException'' []
             then ((None, d\<lparr>Id := []\<rparr>), w')
             else ((Some (Wrapf (''error reading Sagemaker model '' @ Id d) e), d), w')
         | None \<Rightarrow> setAttributes model d w'))"


subsection \<open>Expanding and flattening a container\<close>

text \<open>
  A Go \<open>interface{}\<close> value of a configuration: a string, a \<open>map[string]string\<close>, a
  \<open>map[string]interface{}\<close> or a \<open>[]interface{}\<close>. Maps are association lists, read
  with \<open>map_of\<close> and written with \<open>AList.update\<close>.
\<close>

datatype iface =
    VString string
  | VStringMap "(string \<times> string) list"
  | VMap "(string \<times> iface) list"
  | VList "iface list"

record ImageConfig =
  RepositoryAccessMode :: "string option"

record ContainerDefinition =
  Image :: "string option"
  ModelPackageName :: "string option"
  Mode :: "string option"
  ContainerHostname :: "string option"
  ModelDataUrl :: "string option"
  Environment :: "(string \<times> string option) list option"
  ImageConfig :: "ImageConfig option"

text \<open>The type assertions \<open>v.(string)\<close>, \<open>v.(map[string]interface{})\<close> and
  \<open>v.([]interface{})\<close>; on a missing key \<open>v\<close> is the nil interface, and the assertion
  panics as well.\<close>

fun assertString :: "iface option \<Rightarrow> panic + string" where
  "assertString (Some (VString s)) = Inr s"
| "assertString v = Inl TypeAssertion"

fun assertMap :: "iface option \<Rightarrow> panic + (string \<times> iface) list" where
  "assertMap (Some (VMap m)) = Inr m"
| "assertMap v = Inl TypeAssertion"

fun assertList :: "iface option \<Rightarrow> panic + iface list" where
  "assertList (Some (VList l)) = Inr l"
| "assertList v = Inl TypeAssertion"

text \<open>
  Modelled from the spec: \<open>expandStringMap\<close> (the provider's helper, not among the
  sources) turns a \<open>map[string]interface{}\<close> of strings into a non-nil
  \<open>map[string]*string\<close>, asserting every value to be a string.
  \<open>aws.StringValueMap\<close> of the AWS SDK goes back to a \<open>map[string]string\<close>, leaving out
  nil values.
\<close>

fun expandStringMap :: "(string \<times> iface) list \<Rightarrow> panic + (string \<times> string option) list" where
  "expandStringMap [] = Inr []"
| "expandStringMap ((k, v) # m) =
     (case assertString (Some v) of
        Inl p \<Rightarrow> Inl p
      | Inr s \<Rightarrow> (case expandStringMap m of
                    Inl p \<Rightarrow> Inl p
                  | Inr r \<Rightarrow> Inr ((k, String s) # r)))"

fun StringValueMap :: "(string \<times> string option) list \<Rightarrow> (string \<times> string) list" where
  "StringValueMap [] = []"
| "StringValueMap ((k, None) # m) = StringValueMap m"
| "StringValueMap ((k, Some s) # m) = (k, s) # StringValueMap m"

definition expandSagemakerModelImageConfig :: "iface list \<Rightarrow> panic + ImageConfig option" where
  "expandSagemakerModelImageConfig l =
     (case l of
        [] \<Rightarrow> Inr None
      | x # xs \<Rightarrow>
          (case assertMap (Some x) of
             Inl p \<Rightarrow> Inl p
           | Inr m \<Rightarrow>
               (case assertString (map_of m ''repository_access_mode'') of
                  Inl p \<Rightarrow> Inl p
                | Inr s \<Rightarrow> Inr (Some \<lparr>RepositoryAccessMode = String s\<rparr>))))"

text \<open>
  The statement \<open>if v, ok := m[key]; ok && v.(string) != "" { field = aws.String(v.(string)) }\<close>
  that \<open>expandContainer\<close> repeats for its five string fields: the new value of the field,
  nil when the key is missing or the string is empty.
\<close>

definition stringField :: "(string \<times> iface) list \<Rightarrow> string \<Rightarrow> panic + string option" where
  "stringField m key =
     (case map_of m key of
        None \<Rightarrow> Inr None
      | Some v \<Rightarrow>
          (case assertString (Some v) of
             Inl p \<Rightarrow> Inl p
           | Inr s \<Rightarrow> Inr (if s \<noteq> [] then String s else None)))"

definition expandContainer :: "(string \<times> iface) list \<Rightarrow> panic + ContainerDefinition" where
  "expandContainer m =
     (case stringField m ''image'' of Inl p \<Rightarrow> Inl p | Inr image_v \<Rightarrow>
      case stringField m ''model_package_name'' of Inl p \<Rightarrow> Inl p | Inr modelPackageName_v \<Rightarrow>
      case stringField m ''mode'' of Inl p \<Rightarrow> Inl p | Inr mode_v \<Rightarrow>
      case stringField m ''container_hostname'' of Inl p \<Rightarrow> Inl p | Inr containerHostname_v \<Rightarrow>
      case stringField m ''model_data_url'' of Inl p \<Rightarrow> Inl p | Inr modelDataUrl_v \<Rightarrow>
      case (case map_of m ''environment'' of
              None \<Rightarrow> Inr None
            | Some v \<Rightarrow> (case assertMap (Some v) of
                           Inl p \<Rightarrow> Inl p
                         | Inr e \<Rightarrow> map_sum id Some (expandStringMap e)))
        of Inl p \<Rightarrow> Inl p | Inr environment_v \<Rightarrow>
      case (case map_of m ''image_config'' of
              None \<Rightarrow> Inr None
            | Some v \<Rightarrow> (case assertList (Some v) of
                           Inl p \<Rightarrow> Inl p
                         | Inr l \<Rightarrow> expandSagemakerModelImageConfig l))
        of Inl p \<Rightarrow> Inl p | Inr imageConfig_v \<Rightarrow>
      Inr \<lparr>Image = image_v, ModelPackageName = modelPackageName_v, Mode = mode_v,
           ContainerHostname = containerHostname_v, ModelDataUrl = modelDataUrl_v,
           Environment = environment_v, ImageConfig = imageConfig_v\<rparr>)"

definition flattenSagemakerImageConfig :: "ImageConfig option \<Rightarrow> iface list" where
  "flattenSagemakerImageConfig imageConfig =
     (case imageConfig of
        None \<Rightarrow> []
      | Some ic \<Rightarrow>
          [VMap (AList.update ''repository_access_mode''
                   (VString (StringValue (RepositoryAccessMode ic))) [])])"

text \<open>\<open>if field != nil { cfg[key] = value }\<close>\<close>

definition setIfPresent ::
  "'a option \<Rightarrow> string \<Rightarrow> ('a \<Rightarrow> iface) \<Rightarrow> (string \<times> iface) list \<Rightarrow> (string \<times> iface) list" where
  "setIfPresent field key val cfg =
     (case field of None \<Rightarrow> cfg | Some x \<Rightarrow> AList.update key (val x) cfg)"

definition flattenContainer :: "ContainerDefinition option \<Rightarrow> iface list" where
  "flattenContainer container =
     (case container of
        None \<Rightarrow> []
      | Some c \<Rightarrow>
          [VMap
            (setIfPresent (ImageConfig c) ''image_config''
               (\<lambda>x. VList (flattenSagemakerImageConfig (Some x)))
            (setIfPresent (Environment c) ''environment'' (\<lambda>x. VStringMap (StringValueMap x))
            (setIfPresent (ModelDataUrl c) ''model_data_url'' (\<lambda>x. VString (StringValue (Some x)))
            (setIfPresent (ContainerHostname c) ''container_hostname''
               (\<lambda>x. VString (StringValue (Some x)))
            (setIfPresent (Mode c) ''mode'' (\<lambda>x. VString (StringValue (Some x)))
            (setIfPresent (ModelPackageName c) ''model_package_name''
               (\<lambda>x. VString (StringValue (Some x)))
            (setIfPresent (Image c) ''image'' (\<lambda>x. VString (StringValue (Some x))) [])))))))])"

text \<open>
  The composition \<open>flattenContainer(expandContainer(m))\<close>; \<open>expandContainer\<close> returns a
  non-nil pointer unless it panics.
\<close>

definition flattenExpanded :: "(string \<times> iface) list \<Rightarrow> panic + iface list" where
  "flattenExpanded m =
     (case expandContainer m of Inl p \<Rightarrow> Inl p | Inr c \<Rightarrow> Inr (flattenContainer (Some c)))"


section \<open>The state-transition waiter\<close>

text \<open>
  Modelled from the spec: \<open>Wait\<close>, the poll/compare/sleep loop that consumes the probes.
  Its code is not among the sources (the probes are built for the plugin SDK's waiter),
  so the loop follows the specification's contract
  \<open>Wait(probe, targetStates, failureStates, timeout, minDelay, pollInterval)\<close> and its
  behaviour paragraph, in that order:
  \<^item> the cancellation signal is checked at the top of each iteration, before anything else;
  \<^item> if the timeout has elapsed, the wait ends with \<open>Timeout\<close>;
  \<^item> the probe is invoked; an error it returns is propagated at once;
  \<^item> a token in \<open>targetStates\<close> ends the wait with success and the last representation;
  \<^item> a token in \<open>failureStates\<close> ends it with \<open>UnexpectedTerminalState\<close>, which embeds
    the token and the last representation;
  \<^item> otherwise the loop sleeps for \<open>pollInterval\<close>, plus jitter, and repeats.

  Time is counted in ticks from the call; the initial delay \<open>minDelay\<close> passes before the
  first iteration and a probe takes no time. The surroundings of one invocation are
  three functions of the iteration number \<open>k\<close>, counted from 0: \<open>probe k\<close> is what the
  \<open>k\<close>-th invocation of the probe returns, \<open>cancelled k\<close> tells whether the
  cancellation signal is up at the top of iteration \<open>k\<close>, and \<open>jitter k\<close> is the jitter
  added to the sleep that ends iteration \<open>k\<close>.

  The result is the outcome together with the number of probe invocations made. The loop
  need not end (a zero \<open>pollInterval\<close> with a probe that never settles), so it is a
  partial function: \<open>None\<close> is a wait that never returns.
\<close>

datatype 'r WaitError =
    TransientProbeError error
  | UnexpectedTerminalState string "'r option"
  | Timeout
  | Cancelled

type_synonym 'r probed = "'r option \<times> string \<times> error option"

partial_function (option) Wait_loop ::
  "(nat \<Rightarrow> 'r probed) \<Rightarrow> (nat \<Rightarrow> bool) \<Rightarrow> (nat \<Rightarrow> nat) \<Rightarrow> string set \<Rightarrow> string set
    \<Rightarrow> nat \<Rightarrow> nat \<Rightarrow> nat \<Rightarrow> nat \<Rightarrow> (('r WaitError + 'r option) \<times> nat) option" where
  "Wait_loop probe cancelled jitter targetStates failureStates timeout pollInterval k elapsed =
     (if cancelled k then Some (Inl Cancelled, k)
      else if timeout \<le> elapsed then Some (Inl Timeout, k)
      else (case probe k of (rep, token, err) \<Rightarrow>
        (case err of
           Some e \<Rightarrow> Some (Inl (TransientProbeError e), Suc k)
         | None \<Rightarrow>
             if token \<in> targetStates then Some (Inr rep, Suc k)
             else if token \<in> failureStates
             then Some (Inl (UnexpectedTerminalState token rep), Suc k)
             else Wait_loop probe cancelled jitter targetStates failureStates timeout
                    pollInterval (Suc k) (elapsed + pollInterval + jitter k))))"

definition Wait ::
  "(nat \<Rightarrow> 'r probed) \<Rightarrow> (nat \<Rightarrow> bool) \<Rightarrow> (nat \<Rightarrow> nat) \<Rightarrow> string set \<Rightarrow> string set
    \<Rightarrow> nat \<Rightarrow> nat \<Rightarrow> nat \<Rightarrow> (('r WaitError + 'r option) \<times> nat) option" where
  "Wait probe cancelled jitter targetStates failureStates timeout minDelay pollInterval =
     Wait_loop probe cancelled jitter targetStates failureStates timeout pollInterval 0 minDelay"

text \<open>
  The time at the top of iteration \<open>k\<close>, and what it means for the wait to be still
  polling there: the signal is down, the timeout has not elapsed, and the probe returns
  no error and a token that is neither a target nor a failure state.
\<close>

fun elapsedAt :: "nat \<Rightarrow> nat \<Rightarrow> (nat \<Rightarrow> nat) \<Rightarrow> nat \<Rightarrow> nat" where
  "elapsedAt minDelay pollInterval jitter 0 = minDelay"
| "elapsedAt minDelay pollInterval jitter (Suc k) =
     elapsedAt minDelay pollInterval jitter k + pollInterval + jitter k"

definition pollingAt ::
  "(nat \<Rightarrow> 'r probed) \<Rightarrow> (nat \<Rightarrow> bool) \<Rightarrow> (nat \<Rightarrow> nat) \<Rightarrow> string set \<Rightarrow> string set
    \<Rightarrow> nat \<Rightarrow> nat \<Rightarrow> nat \<Rightarrow> nat \<Rightarrow> bool" where
  "pollingAt probe cancelled jitter targetStates failureStates timeout minDelay pollInterval k =
     (\<not> cancelled k
      \<and> elapsedAt minDelay pollInterval jitter k < timeout
      \<and> snd (snd (probe k)) = None
      \<and> fst (snd (probe k)) \<notin> targetStates
      \<and> fst (snd (probe k)) \<notin> failureStates)"


section \<open>Properties of the probes\<close>

lemma NotFound_nil [simp]: "\<not> NotFound None"
  by (simp add: NotFound_def)











text \<open>
  C1. A finder outcome that a probe classifies as not-found is never turned into an
  error: the closure returns a nil error. For \<open>ServerState\<close>, \<open>UserState\<close>,
  \<open>statusEventSubscription\<close> and \<open>statusDBClusterRole\<close> the not-found outcome is an
  error accepted by \<open>tfresource.NotFound\<close>; \<open>statusDBProxyEndpoint\<close> never consults that
  classifier, its not-found outcome is the finder's nil output with a nil error.
\<close>

theorem probe_not_found_nil_error:
  "(ServerByID conn ident w = ((oa, ea), w') \<and> NotFound ea \<longrightarrow>
      (\<exists>r t. ServerState ServerByID conn ident w = (Inr (r, t, None), w')))
   \<and> (UserByServerIDAndUserName conn serverID userName w = ((ob, eb), w') \<and> NotFound eb \<longrightarrow>
      (\<exists>r t. UserState UserByServerIDAndUserName conn serverID userName w
                = (Inr (r, t, None), w')))
   \<and> (FindEventSubscriptionByID conn ident w = ((oc, ec), w') \<and> NotFound ec \<longrightarrow>
      (\<exists>r t. statusEventSubscription FindEventSubscriptionByID conn ident w
                = (Inr (r, t, None), w')))
   \<and> (FindDBProxyEndpoint conn ident w = ((None, None), w') \<longrightarrow>
      (\<exists>r t. statusDBProxyEndpoint FindDBProxyEndpoint conn ident w
                = (Inr (r, t, None), w')))
   \<and> (FindDBClusterRole conn dbClusterID roleARN w = ((oe, ee), w') \<and> NotFound ee \<longrightarrow>
      (\<exists>r t. statusDBClusterRole FindDBClusterRole conn dbClusterID roleARN w
                = (Inr (r, t, None), w')))"
  by (simp add: ServerState_def UserState_def statusEventSubscription_def
      statusDBProxyEndpoint_def statusDBClusterRole_def)

theorem probe_not_found_nil_error_witness:
  "NotFound (Some (Wrapf ''describing server'' (NotFoundError ''gone'')))
   \<and> (\<exists>r t. ServerState
         (\<lambda>c i w. ((None, Some (Wrapf ''describing server'' (NotFoundError ''gone''))), Suc w))
         () ''s-0123'' (0::nat) = (Inr (r, t, None), Suc 0))
   \<and> (\<exists>r t. UserState
         (\<lambda>c i u w. ((None, Some (Wrapf ''describing server'' (NotFoundError ''gone''))), Suc w))
         () ''s-0123'' ''alice'' (0::nat) = (Inr (r, t, None), Suc 0))
   \<and> (\<exists>r t. statusEventSubscription
         (\<lambda>c i w. ((None, Some (Wrapf ''describing server'' (NotFoundError ''gone''))), Suc w))
         () ''s-0123'' (0::nat) = (Inr (r, t, None), Suc 0))
   \<and> (\<exists>r t. statusDBProxyEndpoint (\<lambda>c i w. ((None, None), Suc w))
         () ''s-0123'' (0::nat) = (Inr (r, t, None), Suc 0))
   \<and> (\<exists>r t. statusDBClusterRole
         (\<lambda>c i u w. ((None, Some (Wrapf ''describing server'' (NotFoundError ''gone''))), Suc w))
         () ''s-0123'' ''alice'' (0::nat) = (Inr (r, t, None), Suc 0))"
  using probe_not_found_nil_error
    [where ServerByID = "\<lambda>c i w. ((None, Some (Wrapf ''describing server'' (NotFoundError ''gone''))), Suc w)"
       and UserByServerIDAndUserName = "\<lambda>c i u w. ((None, Some (Wrapf ''describing server'' (NotFoundError ''gone''))), Suc w)"
       and FindEventSubscriptionByID = "\<lambda>c i w. ((None, Some (Wrapf ''describing server'' (NotFoundError ''gone''))), Suc w)"
       and FindDBProxyEndpoint = "\<lambda>c i w. ((None, None), Suc w)"
       and FindDBClusterRole = "\<lambda>c i u w. ((None, Some (Wrapf ''describing server'' (NotFoundError ''gone''))), Suc w)"
       and conn = "()" and ident = "''s-0123''" and serverID = "''s-0123''"
       and userName = "''alice''" and dbClusterID = "''s-0123''" and roleARN = "''alice''"
       and w = "0::nat" and w' = "Suc 0"
       and oa = None and ob = None and oc = None and oe = None
       and ea = "Some (Wrapf ''describing server'' (NotFoundError ''gone''))"
       and eb = "Some (Wrapf ''describing server'' (NotFoundError ''gone''))"
       and ec = "Some (Wrapf ''describing server'' (NotFoundError ''gone''))"
       and ee = "Some (Wrapf ''describing server'' (NotFoundError ''gone''))"]
  by (simp add: NotFound_def)

text \<open>
  C2. A finder error that a probe does not classify as not-found comes back from the
  closure as it is, with a nil representation, after the single finder call (the world
  after the probe is the world after that call). \<open>statusDBProxyEndpoint\<close> classifies no
  error as not-found, so it hands back every error.
\<close>

theorem probe_error_propagated:
  "(ServerByID conn ident w = ((oa, Some e), w') \<and> \<not> NotFound (Some e) \<longrightarrow>
      ServerState ServerByID conn ident w = (Inr (None, [], Some e), w'))
   \<and> (UserByServerIDAndUserName conn serverID userName w = ((ob, Some e), w')
        \<and> \<not> NotFound (Some e) \<longrightarrow>
      UserState UserByServerIDAndUserName conn serverID userName w
        = (Inr (None, [], Some e), w'))
   \<and> (FindEventSubscriptionByID conn ident w = ((oc, Some e), w') \<and> \<not> NotFound (Some e) \<longrightarrow>
      statusEventSubscription FindEventSubscriptionByID conn ident w
        = (Inr (None, [], Some e), w'))
   \<and> (FindDBProxyEndpoint conn ident w = ((od, Some e), w') \<longrightarrow>
      statusDBProxyEndpoint FindDBProxyEndpoint conn ident w
        = (Inr (None, proxyEndpointStatusUnknown, Some e), w'))
   \<and> (FindDBClusterRole conn dbClusterID roleARN w = ((oe, Some e), w')
        \<and> \<not> NotFound (Some e) \<longrightarrow>
      statusDBClusterRole FindDBClusterRole conn dbClusterID roleARN w
        = (Inr (None, [], Some e), w'))"
  by (simp add: ServerState_def UserState_def statusEventSubscription_def
      statusDBProxyEndpoint_def statusDBClusterRole_def)

theorem probe_error_propagated_witness:
  "\<not> NotFound (Some (AWSError ''ThrottlingException'' ''Rate exceeded''))
   \<and> ServerState (\<lambda>c i w. ((None, Some (AWSError ''ThrottlingException'' ''Rate exceeded'')), Suc w))
        () ''s-0123'' (0::nat)
      = (Inr (None, [], Some (AWSError ''ThrottlingException'' ''Rate exceeded'')), Suc 0)
   \<and> UserState (\<lambda>c i u w. ((None, Some (AWSError ''ThrottlingException'' ''Rate exceeded'')), Suc w))
        () ''s-0123'' ''alice'' (0::nat)
      = (Inr (None, [], Some (AWSError ''ThrottlingException'' ''Rate exceeded'')), Suc 0)
   \<and> statusEventSubscription
        (\<lambda>c i w. ((None, Some (AWSError ''ThrottlingException'' ''Rate exceeded'')), Suc w))
        () ''s-0123'' (0::nat)
      = (Inr (None, [], Some (AWSError ''ThrottlingException'' ''Rate exceeded'')), Suc 0)
   \<and> statusDBProxyEndpoint
        (\<lambda>c i w. ((None, Some (AWSError ''ThrottlingException'' ''Rate exceeded'')), Suc w))
        () ''s-0123'' (0::nat)
      = (Inr (None, ''Unknown'', Some (AWSError ''ThrottlingException'' ''Rate exceeded'')), Suc 0)
   \<and> statusDBClusterRole
        (\<lambda>c i u w. ((None, Some (AWSError ''ThrottlingException'' ''Rate exceeded'')), Suc w))
        () ''s-0123'' ''alice'' (0::nat)
      = (Inr (None, [], Some (AWSError ''ThrottlingException'' ''Rate exceeded'')), Suc 0)"
  using probe_error_propagated
    [where ServerByID = "\<lambda>c i w. ((None, Some (AWSError ''ThrottlingException'' ''Rate exceeded'')), Suc w)"
       and UserByServerIDAndUserName = "\<lambda>c i u w. ((None, Some (AWSError ''ThrottlingException'' ''Rate exceeded'')), Suc w)"
       and FindEventSubscriptionByID = "\<lambda>c i w. ((None, Some (AWSError ''ThrottlingException'' ''Rate exceeded'')), Suc w)"
       and FindDBProxyEndpoint = "\<lambda>c i w. ((None, Some (AWSError ''ThrottlingException'' ''Rate exceeded'')), Suc w)"
       and FindDBClusterRole = "\<lambda>c i u w. ((None, Some (AWSError ''ThrottlingException'' ''Rate exceeded'')), Suc w)"
       and conn = "()" and ident = "''s-0123''" and serverID = "''s-0123''"
       and userName = "''alice''" and dbClusterID = "''s-0123''" and roleARN = "''alice''"
       and w = "0::nat" and w' = "Suc 0"
       and oa = None and ob = None and oc = None and od = None and oe = None
       and e = "AWSError ''ThrottlingException'' ''Rate exceeded''"]
  by (simp add: NotFound_def proxyEndpointStatusUnknown_def)

text \<open>
  C3 (as stated). The token of a not-found outcome is not always the empty string:
  \<open>statusDBProxyEndpoint\<close> answers its not-found outcome (nil output, nil error) with the
  token \<open>NotFound\<close>.
\<close>

theorem proxy_endpoint_not_found_token_counterexample:
  "statusDBProxyEndpoint (\<lambda>c i w. ((None, None), Suc w)) () ''proxy/endpoint'' (0::nat)
     = (Inr (None, ''NotFound'', None), Suc 0)
   \<and> ''NotFound'' \<noteq> ([] :: string)"
  by (simp add: statusDBProxyEndpoint_def proxyEndpointStatusNotFound_def)

text \<open>
  C3 (amended). On a finder error accepted by \<open>tfresource.NotFound\<close>, \<open>ServerState\<close>,
  \<open>UserState\<close>, \<open>statusEventSubscription\<close> and \<open>statusDBClusterRole\<close> return the empty
  token with a nil representation and a nil error. \<open>statusDBProxyEndpoint\<close> returns the
  token \<open>proxyEndpointStatusNotFound\<close> (the non-empty string NotFound) when its finder
  returns a nil output with a nil error.
\<close>

theorem probe_not_found_token:
  "(ServerByID conn ident w = ((oa, ea), w') \<and> NotFound ea \<longrightarrow>
      ServerState ServerByID conn ident w = (Inr (None, [], None), w'))
   \<and> (UserByServerIDAndUserName conn serverID userName w = ((ob, eb), w') \<and> NotFound eb \<longrightarrow>
      UserState UserByServerIDAndUserName conn serverID userName w = (Inr (None, [], None), w'))
   \<and> (FindEventSubscriptionByID conn ident w = ((oc, ec), w') \<and> NotFound ec \<longrightarrow>
      statusEventSubscription FindEventSubscriptionByID conn ident w
        = (Inr (None, [], None), w'))
   \<and> (FindDBProxyEndpoint conn ident w = ((None, None), w') \<longrightarrow>
      statusDBProxyEndpoint FindDBProxyEndpoint conn ident w
        = (Inr (None, proxyEndpointStatusNotFound, None), w')
      \<and> proxyEndpointStatusNotFound = ''NotFound'')
   \<and> (FindDBClusterRole conn dbClusterID roleARN w = ((oe, ee), w') \<and> NotFound ee \<longrightarrow>
      statusDBClusterRole FindDBClusterRole conn dbClusterID roleARN w
        = (Inr (None, [], None), w'))"
  by (simp add: ServerState_def UserState_def statusEventSubscription_def
      statusDBProxyEndpoint_def statusDBClusterRole_def proxyEndpointStatusNotFound_def)

theorem probe_not_found_token_witness:
  "NotFound (Some (NotFoundError ''couldn't find resource''))
   \<and> ServerState (\<lambda>c i w. ((None, Some (NotFoundError ''couldn't find resource'')), Suc w))
        () ''s-0123'' (0::nat) = (Inr (None, [], None), Suc 0)
   \<and> UserState (\<lambda>c i u w. ((None, Some (NotFoundError ''couldn't find resource'')), Suc w))
        () ''s-0123'' ''alice'' (0::nat) = (Inr (None, [], None), Suc 0)
   \<and> statusEventSubscription
        (\<lambda>c i w. ((None, Some (NotFoundError ''couldn't find resource'')), Suc w))
        () ''s-0123'' (0::nat) = (Inr (None, [], None), Suc 0)
   \<and> statusDBProxyEndpoint (\<lambda>c i w. ((None, None), Suc w))
        () ''s-0123'' (0::nat) = (Inr (None, ''NotFound'', None), Suc 0)
   \<and> statusDBClusterRole
        (\<lambda>c i u w. ((None, Some (NotFoundError ''couldn't find resource'')), Suc w))
        () ''s-0123'' ''alice'' (0::nat) = (Inr (None, [], None), Suc 0)"
  using probe_not_found_token
    [where ServerByID = "\<lambda>c i w. ((None, Some (NotFoundError ''couldn't find resource'')), Suc w)"
       and UserByServerIDAndUserName = "\<lambda>c i u w. ((None, Some (NotFoundError ''couldn't find resource'')), Suc w)"
       and FindEventSubscriptionByID = "\<lambda>c i w. ((None, Some (NotFoundError ''couldn't find resource'')), Suc w)"
       and FindDBProxyEndpoint = "\<lambda>c i w. ((None, None), Suc w)"
       and FindDBClusterRole = "\<lambda>c i u w. ((None, Some (NotFoundError ''couldn't find resource'')), Suc w)"
       and conn = "()" and ident = "''s-0123''" and serverID = "''s-0123''"
       and userName = "''alice''" and dbClusterID = "''s-0123''" and roleARN = "''alice''"
       and w = "0::nat" and w' = "Suc 0"
       and oa = None and ob = None and oc = None and oe = None
       and ea = "Some (NotFoundError ''couldn't find resource'')"
       and eb = "Some (NotFoundError ''couldn't find resource'')"
       and ec = "Some (NotFoundError ''couldn't find resource'')"
       and ee = "Some (NotFoundError ''couldn't find resource'')"]
  by (simp add: NotFound_def)

text \<open>
  C4 (as stated). The token of \<open>UserState\<close> is not read from the representation: for a
  user whose every field is set, the token is the constant \<open>exists\<close>, which is the value
  of none of the fields.
\<close>

theorem UserState_token_counterexample:
  "UserState
     (\<lambda>c s u w. ((Some \<lparr>Arn = Some ''arn:aws:transfer:us-east-1:1:user/s-0123/alice'',
                        HomeDirectory = Some ''/home/alice'',
                        Role = Some ''arn:aws:iam::1:role/transfer'',
                        UserName = Some ''alice''\<rparr>, None), Suc w))
     () ''s-0123'' ''alice'' (0::nat)
   = (Inr (Some \<lparr>Arn = Some ''arn:aws:transfer:us-east-1:1:user/s-0123/alice'',
                  HomeDirectory = Some ''/home/alice'',
                  Role = Some ''arn:aws:iam::1:role/transfer'',
                  UserName = Some ''alice''\<rparr>, ''exists'', None), Suc 0)
   \<and> ''exists'' \<notin> StringValue ` {Some ''arn:aws:transfer:us-east-1:1:user/s-0123/alice'',
                                   Some ''/home/alice'', Some ''arn:aws:iam::1:role/transfer'',
                                   Some ''alice''}"
  by (simp add: UserState_def userStateExists_def StringValue_def)

text \<open>
  C4 (amended). When the finder succeeds with a representation (non-nil output, nil
  error), every probe returns that representation whole, with a nil error. The token is
  the string value of the representation's \<open>State\<close> field for \<open>ServerState\<close> and of its
  \<open>Status\<close> field for \<open>statusEventSubscription\<close>, \<open>statusDBProxyEndpoint\<close> and
  \<open>statusDBClusterRole\<close> (the empty string when the field is nil); for \<open>UserState\<close> it
  is the constant \<open>userStateExists\<close>, whatever the representation.
\<close>

theorem probe_found_representation:
  "(ServerByID conn ident w = ((Some sv, None), w') \<longrightarrow>
      ServerState ServerByID conn ident w
        = (Inr (Some sv, StringValue (State sv), None), w'))
   \<and> (UserByServerIDAndUserName conn serverID userName w = ((Some us, None), w') \<longrightarrow>
      UserState UserByServerIDAndUserName conn serverID userName w
        = (Inr (Some us, userStateExists, None), w')
      \<and> userStateExists = ''exists'')
   \<and> (FindEventSubscriptionByID conn ident w = ((Some es, None), w') \<longrightarrow>
      statusEventSubscription FindEventSubscriptionByID conn ident w
        = (Inr (Some es, StringValue (EventSubscription.Status es), None), w'))
   \<and> (FindDBProxyEndpoint conn ident w = ((Some pe, None), w') \<longrightarrow>
      statusDBProxyEndpoint FindDBProxyEndpoint conn ident w
        = (Inr (Some pe, StringValue (DBProxyEndpoint.Status pe), None), w'))
   \<and> (FindDBClusterRole conn dbClusterID roleARN w = ((Some cr, None), w') \<longrightarrow>
      statusDBClusterRole FindDBClusterRole conn dbClusterID roleARN w
        = (Inr (Some cr, StringValue (DBClusterRole.Status cr), None), w'))"
  by (simp add: ServerState_def UserState_def statusEventSubscription_def
      statusDBProxyEndpoint_def statusDBClusterRole_def userStateExists_def)

theorem probe_found_representation_witness:
  "ServerState (\<lambda>c i w. ((Some \<lparr>ServerId = Some ''s-0123'', State = Some ''ONLINE''\<rparr>, None), Suc w))
        () ''s-0123'' (0::nat)
      = (Inr (Some \<lparr>ServerId = Some ''s-0123'', State = Some ''ONLINE''\<rparr>, ''ONLINE'', None), Suc 0)
   \<and> UserState (\<lambda>c i u w. ((Some \<lparr>Arn = None, HomeDirectory = None, Role = None,
                                      UserName = Some ''alice''\<rparr>, None), Suc w))
        () ''s-0123'' ''alice'' (0::nat)
      = (Inr (Some \<lparr>Arn = None, HomeDirectory = None, Role = None,
                     UserName = Some ''alice''\<rparr>, ''exists'', None), Suc 0)
   \<and> statusEventSubscription
        (\<lambda>c i w. ((Some \<lparr>CustSubscriptionId = Some ''sub'',
                          EventSubscription.Status = Some ''active''\<rparr>, None), Suc w))
        () ''s-0123'' (0::nat)
      = (Inr (Some \<lparr>CustSubscriptionId = Some ''sub'',
                     EventSubscription.Status = Some ''active''\<rparr>, ''active'', None), Suc 0)
   \<and> statusDBProxyEndpoint
        (\<lambda>c i w. ((Some \<lparr>DBProxyEndpointName = Some ''ep'',
                          DBProxyEndpoint.Status = None\<rparr>, None), Suc w))
        () ''s-0123'' (0::nat)
      = (Inr (Some \<lparr>DBProxyEndpointName = Some ''ep'',
                     DBProxyEndpoint.Status = None\<rparr>, [], None), Suc 0)
   \<and> statusDBClusterRole
        (\<lambda>c i u w. ((Some \<lparr>RoleArn = Some ''arn'', Status = Some ''ACTIVE''\<rparr>, None), Suc w))
        () ''s-0123'' ''alice'' (0::nat)
      = (Inr (Some \<lparr>RoleArn = Some ''arn'', Status = Some ''ACTIVE''\<rparr>, ''ACTIVE'', None), Suc 0)"
  using probe_found_representation
    [where ServerByID = "\<lambda>c i w. ((Some \<lparr>ServerId = Some ''s-0123'', State = Some ''ONLINE''\<rparr>, None), Suc w)"
       and UserByServerIDAndUserName = "\<lambda>c i u w. ((Some \<lparr>Arn = None, HomeDirectory = None, Role = None, UserName = Some ''alice''\<rparr>, None), Suc w)"
       and FindEventSubscriptionByID = "\<lambda>c i w. ((Some \<lparr>CustSubscriptionId = Some ''sub'', EventSubscription.Status = Some ''active''\<rparr>, None), Suc w)"
       and FindDBProxyEndpoint = "\<lambda>c i w. ((Some \<lparr>DBProxyEndpointName = Some ''ep'', DBProxyEndpoint.Status = None\<rparr>, None), Suc w)"
       and FindDBClusterRole = "\<lambda>c i u w. ((Some \<lparr>RoleArn = Some ''arn'', Status = Some ''ACTIVE''\<rparr>, None), Suc w)"
       and conn = "()" and ident = "''s-0123''" and serverID = "''s-0123''"
       and userName = "''alice''" and dbClusterID = "''s-0123''" and roleARN = "''alice''"
       and w = "0::nat" and w' = "Suc 0"
       and sv = "\<lparr>ServerId = Some ''s-0123'', State = Some ''ONLINE''\<rparr>"
       and us = "\<lparr>Arn = None, HomeDirectory = None, Role = None, UserName = Some ''alice''\<rparr>"
       and es = "\<lparr>CustSubscriptionId = Some ''sub'', EventSubscription.Status = Some ''active''\<rparr>"
       and pe = "\<lparr>DBProxyEndpointName = Some ''ep'', DBProxyEndpoint.Status = None\<rparr>"
       and cr = "\<lparr>RoleArn = Some ''arn'', Status = Some ''ACTIVE''\<rparr>"]
  by (simp add: StringValue_def)






section \<open>Properties of the SageMaker model resource\<close>

text \<open>
  A map of strings survives \<open>expandStringMap\<close> followed by \<open>aws.StringValueMap\<close>.
\<close>

lemma expandStringMap_strings:
  "expandStringMap (map (\<lambda>(k, s). (k, VString s)) env) = Inr (map (\<lambda>(k, s). (k, Some s)) env)"
  by (induction env) (auto simp: String_def)

lemma StringValueMap_strings:
  "StringValueMap (map (\<lambda>(k, s). (k, Some s)) env) = env"
  by (induction env) auto

lemma stringField_populated:
  "map_of m key = Some (VString s) \<Longrightarrow> s \<noteq> [] \<Longrightarrow> stringField m key = Inr (Some s)"
  by (simp add: stringField_def String_def)

lemma expandContainer_populated:
  assumes "map_of m ''image'' = Some (VString i)" "i \<noteq> []"
    and "map_of m ''model_package_name'' = Some (VString p)" "p \<noteq> []"
    and "map_of m ''mode'' = Some (VString mo)" "mo \<noteq> []"
    and "map_of m ''container_hostname'' = Some (VString h)" "h \<noteq> []"
    and "map_of m ''model_data_url'' = Some (VString u)" "u \<noteq> []"
    and "map_of m ''environment'' = Some (VMap (map (\<lambda>(k, s). (k, VString s)) env))"
    and "map_of m ''image_config'' = Some (VList l)"
    and "expandSagemakerModelImageConfig l = Inr ic"
  shows "expandContainer m =
           Inr \<lparr>Image = Some i, ModelPackageName = Some p, Mode = Some mo,
                ContainerHostname = Some h, ModelDataUrl = Some u,
                Environment = Some (map (\<lambda>(k, s). (k, Some s)) env), ImageConfig = ic\<rparr>"
  using assms
  by (simp add: expandContainer_def stringField_populated expandStringMap_strings)

lemma flattenContainer_populated:
  "flattenContainer (Some \<lparr>Image = Some i, ModelPackageName = Some p, Mode = Some mo,
                ContainerHostname = Some h, ModelDataUrl = Some u,
                Environment = Some (map (\<lambda>(k, s). (k, Some s)) env), ImageConfig = ic\<rparr>)
   = [VMap ([(''image'', VString i), (''model_package_name'', VString p), (''mode'', VString mo),
            (''container_hostname'', VString h), (''model_data_url'', VString u),
            (''environment'', VStringMap env)]
           @ (case ic of None \<Rightarrow> []
              | Some c \<Rightarrow> [(''image_config'', VList [VMap [(''repository_access_mode'',
                               VString (StringValue (RepositoryAccessMode c)))]])]))]"
  by (cases ic) (simp_all add: flattenContainer_def setIfPresent_def StringValue_def
      StringValueMap_strings flattenSagemakerImageConfig_def)


text \<open>
  C9 (as stated). With every string field populated and the \<open>environment\<close> and
  \<open>image_config\<close> entries present, the \<open>image_config\<close> entry is not recovered when it
  is the empty list (what the schema yields when no \<open>image_config\<close> block is written):
  \<open>expandSagemakerModelImageConfig\<close> makes it a nil pointer and \<open>flattenContainer\<close>
  sets no \<open>image_config\<close> key for a nil pointer.
\<close>

theorem expand_flatten_empty_image_config_counterexample:
  "map_of [(''image'', VString ''img''), (''model_package_name'', VString ''pkg''),
           (''mode'', VString ''SingleModel''), (''container_hostname'', VString ''host''),
           (''model_data_url'', VString ''s3://bucket/model''),
           (''environment'', VMap [(''KEY'', VString ''value'')]),
           (''image_config'', VList [])] ''image_config'' = Some (VList [])
   \<and> flattenExpanded
       (
          [(''image'', VString ''img''), (''model_package_name'', VString ''pkg''),
           (''mode'', VString ''SingleModel''), (''container_hostname'', VString ''host''),
           (''model_data_url'', VString ''s3://bucket/model''),
           (''environment'', VMap [(''KEY'', VString ''value'')]),
           (''image_config'', VList [])])
     = Inr [VMap [(''image'', VString ''img''), (''model_package_name'', VString ''pkg''),
                  (''mode'', VString ''SingleModel''), (''container_hostname'', VString ''host''),
                  (''model_data_url'', VString ''s3://bucket/model''),
                  (''environment'', VStringMap [(''KEY'', ''value'')])]]
   \<and> map_of [(''image'', VString ''img''), (''model_package_name'', VString ''pkg''),
             (''mode'', VString ''SingleModel''), (''container_hostname'', VString ''host''),
             (''model_data_url'', VString ''s3://bucket/model''),
             (''environment'', VStringMap [(''KEY'', ''value'')])] ''image_config'' = None"
  by (simp add: flattenExpanded_def expandContainer_def stringField_def String_def
      expandSagemakerModelImageConfig_def flattenContainer_def setIfPresent_def
      StringValue_def)

text \<open>
  C9 (amended). Let the five string fields of \<open>m\<close> be non-empty strings, its
  \<open>environment\<close> a map of strings and its \<open>image_config\<close> a list. Then
  \<open>flattenContainer(expandContainer(m))\<close> is a one-element list whose map holds the five
  strings as they were and the \<open>environment\<close> entries as a \<open>map[string]string\<close>. If
  \<open>image_config\<close> is the empty list the map has no \<open>image_config\<close> key; if its first
  element is a map with a string \<open>repository_access_mode\<close>, the map's \<open>image_config\<close>
  is the one-element list holding that \<open>repository_access_mode\<close> alone, which is the
  input's entry when that is a single block with this one key.
\<close>

theorem expand_flatten_container:
  assumes "map_of m ''image'' = Some (VString i)" and "i \<noteq> []"
    and "map_of m ''model_package_name'' = Some (VString p)" and "p \<noteq> []"
    and "map_of m ''mode'' = Some (VString mo)" and "mo \<noteq> []"
    and "map_of m ''container_hostname'' = Some (VString h)" and "h \<noteq> []"
    and "map_of m ''model_data_url'' = Some (VString u)" and "u \<noteq> []"
    and "map_of m ''environment'' = Some (VMap (map (\<lambda>(k, s). (k, VString s)) env))"
    and "map_of m ''image_config'' = Some (VList l)"
  shows "(l = [] \<longrightarrow>
            flattenExpanded m
              = Inr [VMap [(''image'', VString i), (''model_package_name'', VString p),
                           (''mode'', VString mo), (''container_hostname'', VString h),
                           (''model_data_url'', VString u),
                           (''environment'', VStringMap env)]])
       \<and> (\<forall>b bs r. l = VMap b # bs \<and> map_of b ''repository_access_mode'' = Some (VString r) \<longrightarrow>
            flattenExpanded m
              = Inr [VMap [(''image'', VString i), (''model_package_name'', VString p),
                           (''mode'', VString mo), (''container_hostname'', VString h),
                           (''model_data_url'', VString u),
                           (''environment'', VStringMap env),
                           (''image_config'',
                              VList [VMap [(''repository_access_mode'', VString r)]])]])"
proof (intro conjI allI impI)
  assume "l = []"
  then have "expandSagemakerModelImageConfig l = Inr None"
    by (simp add: expandSagemakerModelImageConfig_def)
  from expandContainer_populated [OF assms this]
  show "flattenExpanded m
          = Inr [VMap [(''image'', VString i), (''model_package_name'', VString p),
                       (''mode'', VString mo), (''container_hostname'', VString h),
                       (''model_data_url'', VString u),
                       (''environment'', VStringMap env)]]"
    by (simp add: flattenExpanded_def flattenContainer_populated)
next
  fix b bs r
  assume "l = VMap b # bs \<and> map_of b ''repository_access_mode'' = Some (VString r)"
  then have "expandSagemakerModelImageConfig l = Inr (Some \<lparr>RepositoryAccessMode = Some r\<rparr>)"
    by (simp add: expandSagemakerModelImageConfig_def String_def)
  from expandContainer_populated [OF assms this]
  show "flattenExpanded m
          = Inr [VMap [(''image'', VString i), (''model_package_name'', VString p),
                       (''mode'', VString mo), (''container_hostname'', VString h),
                       (''model_data_url'', VString u),
                       (''environment'', VStringMap env),
                       (''image_config'',
                          VList [VMap [(''repository_access_mode'', VString r)]])]]"
    by (simp add: flattenExpanded_def flattenContainer_populated StringValue_def)
qed


theorem expand_flatten_container_witness:
  "flattenExpanded
     [(''image'', VString ''img''), (''model_package_name'', VString ''pkg''), (''mode'', VString ''SingleModel''), (''container_hostname'', VString ''host''), (''model_data_url'', VString ''s3://bucket/model''), (''environment'', VMap [(''KEY'', VString ''value'')]), (''image_config'', VList [])]
   = Inr [VMap [(''image'', VString ''img''), (''model_package_name'', VString ''pkg''),
                (''mode'', VString ''SingleModel''), (''container_hostname'', VString ''host''),
                (''model_data_url'', VString ''s3://bucket/model''),
                (''environment'', VStringMap [(''KEY'', ''value'')])]]
   \<and> flattenExpanded
     [(''image'', VString ''img''), (''model_package_name'', VString ''pkg''), (''mode'', VString ''SingleModel''), (''container_hostname'', VString ''host''), (''model_data_url'', VString ''s3://bucket/model''), (''environment'', VMap [(''KEY'', VString ''value'')]), (''image_config'', VList [VMap [(''repository_access_mode'', VString ''Vpc'')]])]
   = Inr [VMap [(''image'', VString ''img''), (''model_package_name'', VString ''pkg''),
                (''mode'', VString ''SingleModel''), (''container_hostname'', VString ''host''),
                (''model_data_url'', VString ''s3://bucket/model''),
                (''environment'', VStringMap [(''KEY'', ''value'')]),
                (''image_config'', VList [VMap [(''repository_access_mode'', VString ''Vpc'')]])]]"
  using expand_flatten_container
    [where m = "[(''image'', VString ''img''), (''model_package_name'', VString ''pkg''), (''mode'', VString ''SingleModel''), (''container_hostname'', VString ''host''), (''model_data_url'', VString ''s3://bucket/model''), (''environment'', VMap [(''KEY'', VString ''value'')]), (''image_config'', VList [])]"
       and i = "''img''" and p = "''pkg''" and mo = "''SingleModel''" and h = "''host''"
       and u = "''s3://bucket/model''" and env = "[(''KEY'', ''value'')]" and l = "[]"]
    expand_flatten_container
    [where m = "[(''image'', VString ''img''), (''model_package_name'', VString ''pkg''), (''mode'', VString ''SingleModel''), (''container_hostname'', VString ''host''), (''model_data_url'', VString ''s3://bucket/model''), (''environment'', VMap [(''KEY'', VString ''value'')]), (''image_config'', VList [VMap [(''repository_access_mode'', VString ''Vpc'')]])]"
       and i = "''img''" and p = "''pkg''" and mo = "''SingleModel''" and h = "''host''"
       and u = "''s3://bucket/model''" and env = "[(''KEY'', ''value'')]" and l = "[VMap [(''repository_access_mode'', VString ''Vpc'')]]"]
  by simp

text \<open>
  C10. When \<open>DescribeModel\<close> fails in \<open>resourceAwsSagemakerModelRead\<close> with an AWS
  \<open>ValidationException\<close>, the resource ID is cleared and the function returns nil; on
  every other error it returns a non-nil error that wraps the cause, and the resource
  data, its ID included, is as it was.
\<close>

theorem read_describe_error:
  assumes "DescribeModel (Id d) w = ((model, Some e), w')"
  shows "(isAWSErr e ''ValidationException'' [] \<longrightarrow>
            resourceAwsSagemakerModelRead DescribeModel setAttributes d w
              = ((None, d\<lparr>Id := []\<rparr>), w'))
       \<and> (\<not> isAWSErr e ''ValidationException'' [] \<longrightarrow>
            resourceAwsSagemakerModelRead DescribeModel setAttributes d w
              = ((Some (Wrapf (''error reading Sagemaker model '' @ Id d) e), d), w'))"
  using assms by (simp add: resourceAwsSagemakerModelRead_def)

theorem read_describe_error_witness:
  "resourceAwsSagemakerModelRead
     (\<lambda>n w. ((None, Some (AWSError ''ValidationException'' ''Could not find model'')), Suc w))
     (\<lambda>mo d w. ((None, d), w)) \<lparr>Id = ''my-model''\<rparr> (0::nat)
   = ((None, \<lparr>Id = []\<rparr>), Suc 0)
   \<and> resourceAwsSagemakerModelRead
     (\<lambda>n w. ((None, Some (AWSError ''ThrottlingException'' ''Rate exceeded'')), Suc w))
     (\<lambda>mo d w. ((None, d), w)) \<lparr>Id = ''my-model''\<rparr> (0::nat)
   = ((Some (Wrapf ''error reading Sagemaker model my-model''
               (AWSError ''ThrottlingException'' ''Rate exceeded'')), \<lparr>Id = ''my-model''\<rparr>), Suc 0)"
  using read_describe_error
    [where DescribeModel = "\<lambda>n w. ((None, Some (AWSError ''ValidationException'' ''Could not find model'')), Suc w)"
       and setAttributes = "\<lambda>mo d w. ((None, d), w)" and d = "\<lparr>Id = ''my-model''\<rparr>"
       and w = "0::nat" and w' = "Suc 0" and model = None
       and e = "AWSError ''ValidationException'' ''Could not find model''"]
    read_describe_error
    [where DescribeModel = "\<lambda>n w. ((None, Some (AWSError ''ThrottlingException'' ''Rate exceeded'')), Suc w)"
       and setAttributes = "\<lambda>mo d w. ((None, d), w)" and d = "\<lparr>Id = ''my-model''\<rparr>"
       and w = "0::nat" and w' = "Suc 0" and model = None
       and e = "AWSError ''ThrottlingException'' ''Rate exceeded''"]
  by simp




section \<open>Properties of the waiter\<close>

text \<open>
  As long as the wait is still polling at every iteration before the \<open>n\<close>-th, it is at
  the top of iteration \<open>n\<close> after \<open>n\<close> probe invocations.
\<close>

lemma Wait_loop_polling:
  assumes "\<forall>k<n. pollingAt probe cancelled jitter T F timeout minDelay pollInterval k"
  shows "Wait probe cancelled jitter T F timeout minDelay pollInterval
           = Wait_loop probe cancelled jitter T F timeout pollInterval n
               (elapsedAt minDelay pollInterval jitter n)"
  using assms
proof (induction n)
  case 0
  show ?case by (simp add: Wait_def)
next
  case (Suc n)
  then have p: "pollingAt probe cancelled jitter T F timeout minDelay pollInterval n"
    and ih: "Wait probe cancelled jitter T F timeout minDelay pollInterval
           = Wait_loop probe cancelled jitter T F timeout pollInterval n
               (elapsedAt minDelay pollInterval jitter n)"
    by simp_all
  obtain rep token err where pk: "probe n = (rep, token, err)"
    by (cases "probe n") auto
  from p pk show ?case
    unfolding ih
    by (subst Wait_loop.simps) (simp add: pollingAt_def)
qed


text \<open>
  C5. If the probe results reach a token of \<open>targetStates\<close> at invocation \<open>n\<close>, before
  the timeout elapses, the wait having been polling until then and not being cancelled,
  then \<open>Wait\<close> returns success with the representation of that last invocation.
\<close>

theorem Wait_reaches_target:
  assumes "\<forall>k<n. pollingAt probe cancelled jitter targetStates failureStates timeout
                   minDelay pollInterval k"
    and "\<not> cancelled n"
    and "elapsedAt minDelay pollInterval jitter n < timeout"
    and "probe n = (rep, token, None)"
    and "token \<in> targetStates"
  shows "Wait probe cancelled jitter targetStates failureStates timeout minDelay pollInterval
           = Some (Inr rep, Suc n)"
  unfolding Wait_loop_polling [OF assms(1)]
  using assms(2-5) by (subst Wait_loop.simps) simp

theorem Wait_reaches_target_witness:
  "Wait (\<lambda>k. if k < 2 then (Some ''r-creating'', ''Creating'', None)
              else (Some ''r-active'', ''Active'', None))
        (\<lambda>k. False) (\<lambda>k. 0) {''Active''} {''Failed''} 60 0 10
     = Some (Inr (Some ''r-active''), Suc (Suc (Suc 0)))"
  using Wait_reaches_target
    [where probe = "\<lambda>k. if k < 2 then (Some ''r-creating'', ''Creating'', None)
                         else (Some ''r-active'', ''Active'', None)"
       and cancelled = "\<lambda>k. False" and jitter = "\<lambda>k. 0"
       and targetStates = "{''Active''}" and failureStates = "{''Failed''}"
       and timeout = 60 and minDelay = 0 and pollInterval = 10
       and n = "Suc (Suc 0)" and rep = "Some ''r-active''" and token = "''Active''"]
  by (simp add: pollingAt_def All_less_Suc)



text \<open>
  C7. If the cancellation signal is up at the top of iteration \<open>n\<close>, so was raised
  after the \<open>n\<close> polls made until then, \<open>Wait\<close> returns \<open>Cancelled\<close> and the probe is
  not invoked again: the \<open>n\<close> invocations already made are all there are, whether or not
  the timeout has elapsed as well.
\<close>

theorem Wait_cancelled:
  assumes "\<forall>k<n. pollingAt probe cancelled jitter targetStates failureStates timeout
                   minDelay pollInterval k"
    and "cancelled n"
  shows "Wait probe cancelled jitter targetStates failureStates timeout minDelay pollInterval
           = Some (Inl Cancelled, n)"
  unfolding Wait_loop_polling [OF assms(1)]
  using assms(2) by (subst Wait_loop.simps) simp

theorem Wait_cancelled_witness:
  "Wait (\<lambda>k. (Some ''r-creating'', ''Creating'', None))
        (\<lambda>k. 1 \<le> k) (\<lambda>k. 0) {''Active''} {''Failed''} 60 0 10
     = Some (Inl Cancelled, Suc 0)"
  using Wait_cancelled
    [where probe = "\<lambda>k. (Some ''r-creating'', ''Creating'', None)"
       and cancelled = "\<lambda>k. 1 \<le> k" and jitter = "\<lambda>k. 0"
       and targetStates = "{''Active''}" and failureStates = "{''Failed''}"
       and timeout = 60 and minDelay = 0 and pollInterval = 10
       and n = "Suc 0"]
  by (simp add: pollingAt_def)


end
